theory Spec2Isabelle
  imports Complex_Main
begin

section \<open>Fragrance forecast: the click handler of script.js\<close>

text \<open>
  The script is one click handler over four UI functions, three asynchronous API
  functions and a lookup table. The model follows it function by function.

  \<^item> The DOM elements the script holds are the fields of the record \<open>dom\<close>; every UI
    function takes the DOM and returns it updated.
  \<^item> A JavaScript exception or a rejected promise is a value \<open>Inl error\<close> of the type
    \<open>error + 'a\<close>; \<open>await\<close> is the case distinction on such a value.
  \<^item> What the platform answers (geolocation, the three \<open>fetch\<close> calls, \<open>response.json()\<close>,
    \<open>JSON.parse\<close>) is the input of the model, collected in the record \<open>env\<close>.
  \<^item> Payloads are typed after the providers' interfaces: a field that may be absent is
    an \<open>option\<close>, a field that is present holds a value of the type the interface
    names (a string, a number). Numbers are the rationals they denote.
\<close>

subsection \<open>Errors\<close>

text \<open>
  An \<open>Error\<close> object, with its \<open>message\<close>. \<open>Error\<close> is what the script throws itself,
  \<open>TypeError\<close> and \<open>SyntaxError\<close> come from the engine and the platform.
\<close>

datatype error =
    Error (message: string)
  | TypeError (message: string)
  | SyntaxError (message: string)

text \<open>
  Reading a property of \<open>undefined\<close> throws a \<open>TypeError\<close>; the wording of its message
  is the engine's (here V8's).
\<close>

definition read_of_undefined :: "string \<Rightarrow> error" where
  "read_of_undefined p =
     TypeError (''Cannot read properties of undefined (reading '' @ [CHR 0x27] @ p @ [CHR 0x27] @ '')'')"

subsection \<open>Numbers as text\<close>

text \<open>
  The decimal digits of a natural number, and the text a template literal gives for an
  integral number. Up to \<open>2^53\<close> in magnitude that text is the digits of the integer.
  Beyond, JavaScript writes the shortest digits that read back as the same double, and
  from \<open>10^21\<close> the exponent form: there the model leaves the text unspecified.
\<close>

definition digit :: "nat \<Rightarrow> char" where
  "digit d = ''0123456789'' ! d"

function digits :: "nat \<Rightarrow> string" where
  "digits n = (if n < 10 then [digit n] else digits (n div 10) @ [digit (n mod 10)])"
  by pat_completeness auto
termination
  by (relation "measure id") auto

declare digits.simps [simp del]

definition Number_toString :: "int \<Rightarrow> string" where
  "Number_toString i =
     (if \<bar>i\<bar> \<le> 2 ^ 53
      then (if i < 0 then ''-'' @ digits (nat (- i)) else digits (nat i))
      else undefined i)"

text \<open>
  \<open>Math.round\<close>: the integer closest to the argument, the one closer to plus infinity
  when two are equally close.
\<close>

definition Math_round :: "rat \<Rightarrow> int" where
  "Math_round x = \<lfloor>x + 1 / 2\<rfloor>"

subsection \<open>Helper: weather descriptions\<close>

definition descriptions :: "(int \<times> string) list" where
  "descriptions =
     [(0, ''Clear sky''),
      (1, ''Mainly clear''),
      (2, ''Partly cloudy''),
      (3, ''Overcast''),
      (45, ''Fog''),
      (48, ''Depositing rime fog''),
      (51, ''Light drizzle''),
      (53, ''Moderate drizzle''),
      (55, ''Dense drizzle''),
      (56, ''Light freezing drizzle''),
      (57, ''Dense freezing drizzle''),
      (61, ''Slight rain''),
      (63, ''Moderate rain''),
      (65, ''Heavy rain''),
      (66, ''Light freezing rain''),
      (67, ''Heavy freezing rain''),
      (71, ''Slight snow fall''),
      (73, ''Moderate snow fall''),
      (75, ''Heavy snow fall''),
      (77, ''Snow grains''),
      (80, ''Slight rain showers''),
      (81, ''Moderate rain showers''),
      (82, ''Violent rain showers''),
      (85, ''Slight snow showers''),
      (86, ''Heavy snow showers''),
      (95, ''Thunderstorm''),
      (96, ''Thunderstorm with slight hail''),
      (99, ''Thunderstorm with heavy hail'')]"

text \<open>
  \<open>a || b\<close> on an operand that is a string or \<open>undefined\<close>: the left operand when it is
  a non-empty string, the right one otherwise.
\<close>

definition or_else :: "string option \<Rightarrow> string \<Rightarrow> string" where
  "or_else a b = (case a of None \<Rightarrow> b | Some s \<Rightarrow> if s = [] then b else s)"

definition getWeatherDescription :: "int \<Rightarrow> string" where
  "getWeatherDescription code = or_else (map_of descriptions code) ''Unknown weather''"

subsection \<open>The DOM\<close>

text \<open>
  A panel is an element with a class list; the text elements are their \<open>textContent\<close>;
  the button has its \<open>disabled\<close> flag and its class list.
\<close>

record dom =
  getForecastBtn_disabled :: bool
  getForecastBtn_classList :: "string set"
  resultsDiv :: "string set"
  loadingDiv :: "string set"
  loadingMessage :: string
  errorBox :: "string set"
  errorMessage :: string
  locationDisplay :: string
  weatherDisplay :: string
  fragranceRecommendation :: string
  fragranceReason :: string

definition classList_add :: "string list \<Rightarrow> string set \<Rightarrow> string set" where
  "classList_add cs l = l \<union> set cs"

definition classList_remove :: "string list \<Rightarrow> string set \<Rightarrow> string set" where
  "classList_remove cs l = l - set cs"

text \<open>A panel is visible when its class list does not hold \<open>hidden\<close>.\<close>

definition visible :: "string set \<Rightarrow> bool" where
  "visible l = (''hidden'' \<notin> l)"

subsection \<open>What the platform answers\<close>

text \<open>
  A \<open>Response\<close>: its status and what \<open>response.json()\<close> settles to. \<open>response.ok\<close> is
  true for the statuses 200 to 299.
\<close>

record 'a response =
  status :: nat
  json :: "error + 'a"

definition ok :: "'a response \<Rightarrow> bool" where
  "ok r = (200 \<le> status r \<and> status r \<le> 299)"

text \<open>The weather provider: a \<open>current_weather\<close> object with two numbers.\<close>

record current_weather =
  temperature :: rat
  weathercode :: int

record weather_payload =
  current_weather :: "current_weather option"

text \<open>The reverse geocoding provider: an \<open>address\<close> object with optional \<open>city\<close> and \<open>town\<close>.\<close>

record address =
  city :: "string option"
  town :: "string option"

record geo_payload =
  address :: "address option"

subsection \<open>Data\<close>

record weatherData =
  temperature :: int
  description :: string

record fragrance =
  mood :: string
  atmosphere :: string
  scents :: string
  reason :: string

text \<open>The argument of \<open>updateUI\<close>.\<close>

record flowResult =
  weather :: weatherData
  fragrance :: fragrance
  city :: string

text \<open>
  The generative text provider: a list of candidates, each with a content of parts. The
  text of a part is held as what \<open>JSON.parse\<close> makes of it: a recommendation, or the
  error it throws (also for a text that is absent).
\<close>

record part =
  text_parsed :: "error + fragrance"

record content =
  parts :: "part list option"

record candidate =
  content :: "content option"

record ai_payload =
  candidates :: "candidate list option"

text \<open>A \<open>GeolocationPositionError\<close> with its code; \<open>PERMISSION_DENIED\<close> is the code 1.\<close>

datatype positionError = PositionError nat

definition PERMISSION_DENIED :: nat where
  "PERMISSION_DENIED = 1"

text \<open>
  Which of the two calls under \<open>Promise.all\<close> settles first: when both reject, the
  rejection of the first one is the one thrown.
\<close>

datatype settles_first = WeatherFirst | CityFirst

text \<open>
  One click's environment. \<open>geolocation\<close> is \<open>None\<close> when \<open>navigator.geolocation\<close> is
  absent, and otherwise what \<open>getCurrentPosition\<close> calls back with: an error, or the
  latitude and longitude of the position. The fetches answer by the coordinates in the
  URL, and by the weather the prompt is written from; \<open>Inl\<close> is a fetch that rejects.
\<close>

record env =
  geolocation :: "(positionError + rat \<times> rat) option"
  fetch_weather :: "rat \<Rightarrow> rat \<Rightarrow> error + weather_payload response"
  fetch_geo :: "rat \<Rightarrow> rat \<Rightarrow> error + geo_payload response"
  fetch_ai :: "weatherData \<Rightarrow> error + ai_payload response"
  first :: settles_first

subsection \<open>UI update functions\<close>

definition showLoading :: "string \<Rightarrow> dom \<Rightarrow> dom" where
  "showLoading msg d =
     d\<lparr>loadingMessage := msg,
       loadingDiv := classList_remove [''hidden''] (loadingDiv d),
       resultsDiv := classList_add [''hidden''] (resultsDiv d),
       errorBox := classList_add [''hidden''] (errorBox d),
       getForecastBtn_disabled := True,
       getForecastBtn_classList :=
         classList_add [''opacity-50'', ''cursor-not-allowed''] (getForecastBtn_classList d)\<rparr>"

definition hideLoading :: "dom \<Rightarrow> dom" where
  "hideLoading d =
     d\<lparr>loadingDiv := classList_add [''hidden''] (loadingDiv d),
       getForecastBtn_disabled := False,
       getForecastBtn_classList :=
         classList_remove [''opacity-50'', ''cursor-not-allowed''] (getForecastBtn_classList d)\<rparr>"

definition showError :: "string \<Rightarrow> dom \<Rightarrow> dom" where
  "showError msg d =
     hideLoading (d\<lparr>errorMessage := msg,
                    errorBox := classList_remove [''hidden''] (errorBox d)\<rparr>)"

text \<open>The degree sign of the weather text is the character \<open>0xB0\<close>.\<close>

definition updateUI :: "flowResult \<Rightarrow> dom \<Rightarrow> dom" where
  "updateUI data d =
     d\<lparr>locationDisplay := ''Forecast for '' @ flowResult.city data,
       weatherDisplay :=
         description (weather data) @ '', ''
           @ Number_toString (weatherData.temperature (weather data)) @ [CHR 0xB0] @ ''C'',
       fragranceRecommendation := scents (fragrance data),
       fragranceReason := ''Mood: '' @ mood (fragrance data) @ ''. '' @ reason (fragrance data),
       resultsDiv := classList_remove [''hidden''] (resultsDiv d)\<rparr>"

subsection \<open>API logic\<close>

definition getWeatherData ::
  "(rat \<Rightarrow> rat \<Rightarrow> error + weather_payload response) \<Rightarrow> rat \<Rightarrow> rat \<Rightarrow> error + weatherData" where
  "getWeatherData fetch latitude longitude =
     (case fetch latitude longitude of
        Inl e \<Rightarrow> Inl e
      | Inr response \<Rightarrow>
          if \<not> ok response then Inl (Error ''Could not fetch weather data.'')
          else (case json response of
                  Inl e \<Rightarrow> Inl e
                | Inr data \<Rightarrow>
                    (case current_weather data of
                       None \<Rightarrow> Inl (read_of_undefined ''temperature'')
                     | Some cw \<Rightarrow>
                         Inr \<lparr>temperature = Math_round (current_weather.temperature cw),
                              description = getWeatherDescription (weathercode cw)\<rparr>)))"

definition getCityName ::
  "(rat \<Rightarrow> rat \<Rightarrow> error + geo_payload response) \<Rightarrow> rat \<Rightarrow> rat \<Rightarrow> error + string" where
  "getCityName fetch latitude longitude =
     (case fetch latitude longitude of
        Inl e \<Rightarrow> Inl e
      | Inr response \<Rightarrow>
          if \<not> ok response then Inr ''your location''
          else (case json response of
                  Inl e \<Rightarrow> Inl e
                | Inr data \<Rightarrow>
                    (case address data of
                       None \<Rightarrow> Inl (read_of_undefined ''city'')
                     | Some a \<Rightarrow>
                         Inr (or_else (address.city a) (or_else (town a) ''your location'')))))"

definition getFragranceFromAI ::
  "(weatherData \<Rightarrow> error + ai_payload response) \<Rightarrow> weatherData \<Rightarrow> error + fragrance" where
  "getFragranceFromAI fetch weatherData =
     (case fetch weatherData of
        Inl e \<Rightarrow> Inl e
      | Inr response \<Rightarrow>
          if \<not> ok response
          then Inl (Error (''AI API request failed with status '' @ digits (status response)))
          else (case json response of
                  Inl e \<Rightarrow> Inl e
                | Inr result \<Rightarrow>
                    (case candidates result of
                       None \<Rightarrow> Inl (Error ''Invalid response structure from AI API.'')
                     | Some cs \<Rightarrow>
                         if length cs > 0 then
                           (case content (cs ! 0) of
                              None \<Rightarrow> Inl (read_of_undefined ''parts'')
                            | Some c \<Rightarrow>
                                (case parts c of
                                   None \<Rightarrow> Inl (read_of_undefined ''0'')
                                 | Some [] \<Rightarrow> Inl (read_of_undefined ''text'')
                                 | Some (p # _) \<Rightarrow> text_parsed p))
                         else Inl (Error ''Invalid response structure from AI API.''))))"

subsection \<open>Main application flow\<close>

text \<open>
  The handler is modelled by the UI calls it makes, in their order; between two of them
  it waits for the platform. \<open>exec\<close> runs one call, \<open>run\<close> all of them, and \<open>states\<close>
  lists the DOM after each call. A run is followed to its end: every operation of the
  platform settles. A run that is still waiting has made the first calls of the list, so
  the DOMs it passes through are among \<open>states\<close>. The log to the console is left out.
\<close>

datatype call = ShowLoading string | HideLoading | ShowError string | UpdateUI flowResult

fun exec :: "call \<Rightarrow> dom \<Rightarrow> dom" where
  "exec (ShowLoading msg) d = showLoading msg d"
| "exec HideLoading d = hideLoading d"
| "exec (ShowError msg) d = showError msg d"
| "exec (UpdateUI data) d = updateUI data d"

fun run :: "call list \<Rightarrow> dom \<Rightarrow> dom" where
  "run [] d = d"
| "run (c # cs) d = run cs (exec c d)"

fun states :: "call list \<Rightarrow> dom \<Rightarrow> dom list" where
  "states [] d = []"
| "states (c # cs) d = exec c d # states cs (exec c d)"

text \<open>\<open>Promise.all\<close> of two promises that have settled.\<close>

definition Promise_all ::
  "settles_first \<Rightarrow> error + 'a \<Rightarrow> error + 'b \<Rightarrow> error + 'a \<times> 'b" where
  "Promise_all fst_settled p q =
     (case p of
        Inl e1 \<Rightarrow>
          (case q of
             Inl e2 \<Rightarrow> Inl (if fst_settled = WeatherFirst then e1 else e2)
           | Inr _ \<Rightarrow> Inl e1)
      | Inr a \<Rightarrow>
          (case q of
             Inl e2 \<Rightarrow> Inl e2
           | Inr b \<Rightarrow> Inr (a, b)))"

text \<open>The \<open>catch\<close> of the success callback: \<open>error.message || "An unknown error occurred."\<close>.\<close>

definition catch :: "error \<Rightarrow> call list" where
  "catch error = [ShowError (or_else (Some (message error)) ''An unknown error occurred.'')]"

definition onPosition :: "env \<Rightarrow> rat \<times> rat \<Rightarrow> call list" where
  "onPosition env position =
     (case position of (latitude, longitude) \<Rightarrow>
        ShowLoading ''Fetching weather data...'' #
        (case Promise_all (first env)
                (getWeatherData (fetch_weather env) latitude longitude)
                (getCityName (fetch_geo env) latitude longitude) of
           Inl error \<Rightarrow> catch error
         | Inr (w, c) \<Rightarrow>
             ShowLoading ''Creating your fragrance profile...'' #
             (case getFragranceFromAI (fetch_ai env) w of
                Inl error \<Rightarrow> catch error
              | Inr f \<Rightarrow> [HideLoading, UpdateUI \<lparr>weather = w, fragrance = f, city = c\<rparr>])))"

definition onPositionError :: "positionError \<Rightarrow> call list" where
  "onPositionError error =
     (case error of PositionError code \<Rightarrow>
        [ShowError
           (if code = PERMISSION_DENIED
            then ''Location access was denied. Please enable it in your browser settings.''
            else ''Could not get your location. Please allow location access.'')])"

definition clickHandler :: "env \<Rightarrow> call list" where
  "clickHandler env =
     (case geolocation env of
        None \<Rightarrow> [ShowError ''Geolocation is not supported by your browser.'']
      | Some getCurrentPosition \<Rightarrow>
          ShowLoading ''Getting your location...'' #
          (case getCurrentPosition of
             Inr position \<Rightarrow> onPosition env position
           | Inl error \<Rightarrow> onPositionError error))"

subsection \<open>Observations and scenarios\<close>

text \<open>The property of the UI surface: no two of the three panels are visible together.\<close>

definition at_most_one_visible :: "dom \<Rightarrow> bool" where
  "at_most_one_visible d =
     (\<not> (visible (loadingDiv d) \<and> visible (errorBox d)) \<and>
      \<not> (visible (loadingDiv d) \<and> visible (resultsDiv d)) \<and>
      \<not> (visible (errorBox d) \<and> visible (resultsDiv d)))"

text \<open>
  \<open>navigator.geolocation\<close> belongs to the page: once a click has found it, every later
  click finds it too. \<open>capability_kept seen envs\<close> says so of the clicks \<open>envs\<close>, where
  \<open>seen\<close> tells whether an earlier click has found it already.
\<close>

fun capability_kept :: "bool \<Rightarrow> env list \<Rightarrow> bool" where
  "capability_kept seen [] = True"
| "capability_kept seen (env # envs) =
     ((seen \<longrightarrow> geolocation env \<noteq> None) \<and>
      capability_kept (seen \<or> geolocation env \<noteq> None) envs)"

text \<open>
  Modelled from the spec: the page itself (index.html) is not among the sources. In the
  idle state the trigger control is enabled and all panels are hidden.
\<close>

definition page_loaded :: dom where
  "page_loaded =
     \<lparr>getForecastBtn_disabled = False,
      getForecastBtn_classList = {},
      resultsDiv = {''hidden''},
      loadingDiv = {''hidden''},
      loadingMessage = [],
      errorBox = {''hidden''},
      errorMessage = [],
      locationDisplay = [],
      weatherDisplay = [],
      fragranceRecommendation = [],
      fragranceReason = []\<rparr>"

text \<open>Well-formed answers of the three providers (status 200, full payload).\<close>

definition weather_replies :: "rat \<Rightarrow> int \<Rightarrow> error + weather_payload response" where
  "weather_replies t c =
     Inr \<lparr>status = 200,
          json = Inr \<lparr>current_weather = Some \<lparr>current_weather.temperature = t, weathercode = c\<rparr>\<rparr>\<rparr>"

definition geo_replies :: "string option \<Rightarrow> string option \<Rightarrow> error + geo_payload response" where
  "geo_replies c t = Inr \<lparr>status = 200, json = Inr \<lparr>address = Some \<lparr>address.city = c, town = t\<rparr>\<rparr>\<rparr>"

definition ai_replies :: "fragrance \<Rightarrow> error + ai_payload response" where
  "ai_replies f =
     Inr \<lparr>status = 200,
          json = Inr \<lparr>candidates =
                        Some [\<lparr>content = Some \<lparr>parts = Some [\<lparr>text_parsed = Inr f\<rparr>]\<rparr>\<rparr>]\<rparr>\<rparr>"

definition cozy :: fragrance where
  "cozy =
     \<lparr>mood = ''Cozy'', atmosphere = ''Rainy afternoon'', scents = ''Amber & Vanilla'',
      reason = ''Warm scents suit rain.''\<rparr>"

text \<open>
  The end-to-end scenario: the position (51.5, -0.12), weather code 61 at 12.3 degrees,
  the city London, and the recommendation above.
\<close>

definition london :: env where
  "london =
     \<lparr>geolocation = Some (Inr (515 / 10, - (12 / 100))),
      fetch_weather = (\<lambda>latitude longitude. weather_replies (123 / 10) 61),
      fetch_geo = (\<lambda>latitude longitude. geo_replies (Some ''London'') None),
      fetch_ai = (\<lambda>weatherData. ai_replies cozy),
      first = WeatherFirst\<rparr>"

text \<open>Variations of the scenario in which one provider fails.\<close>

text \<open>The reverse geocoding provider cannot be reached: its \<open>fetch\<close> rejects.\<close>

definition geocode_unreachable :: env where
  "geocode_unreachable =
     london\<lparr>fetch_geo := (\<lambda>latitude longitude. Inl (TypeError ''Failed to fetch''))\<rparr>"

text \<open>
  The reverse geocoding provider answers with the status 200 and a body without an
  address object (as it does for a position it cannot geocode).
\<close>

definition geocode_without_address :: env where
  "geocode_without_address =
     london\<lparr>fetch_geo :=
              (\<lambda>latitude longitude. Inr \<lparr>status = 200, json = Inr \<lparr>address = None\<rparr>\<rparr>)\<rparr>"

text \<open>The reverse geocoding provider answers with the status 500.\<close>

definition geocode_unavailable :: env where
  "geocode_unavailable =
     london\<lparr>fetch_geo :=
              (\<lambda>latitude longitude.
                 Inr \<lparr>status = 500, json = Inl (SyntaxError ''Unexpected token'')\<rparr>)\<rparr>"

text \<open>The reverse geocoding provider knows an address without a city, and an empty town.\<close>

definition geocode_nameless :: env where
  "geocode_nameless =
     london\<lparr>fetch_geo := (\<lambda>latitude longitude. geo_replies None (Some []))\<rparr>"

text \<open>The weather provider answers with the status 503.\<close>

definition weather_unavailable :: env where
  "weather_unavailable =
     london\<lparr>fetch_weather :=
              (\<lambda>latitude longitude.
                 Inr \<lparr>status = 503, json = Inl (SyntaxError ''Unexpected token'')\<rparr>)\<rparr>"

text \<open>The generative text provider answers with one candidate that has no content.\<close>

definition candidate_without_content :: "weatherData \<Rightarrow> error + ai_payload response" where
  "candidate_without_content weatherData =
     Inr \<lparr>status = 200, json = Inr \<lparr>candidates = Some [\<lparr>content = None\<rparr>]\<rparr>\<rparr>"

text \<open>The same answer of the generative text provider, within the scenario.\<close>

definition ai_without_content :: env where
  "ai_without_content = london\<lparr>fetch_ai := candidate_without_content\<rparr>"

section \<open>Properties\<close>

subsection \<open>Evaluation lemmas\<close>

lemmas ui_defs = showLoading_def hideLoading_def showError_def updateUI_def
  classList_add_def classList_remove_def visible_def

lemmas api_defs = getWeatherData_def getCityName_def getFragranceFromAI_def ok_def
  or_else_def Promise_all_def

lemmas flow_defs = clickHandler_def onPosition_def onPositionError_def catch_def

lemmas scenario_defs = weather_replies_def geo_replies_def ai_replies_def

lemma Math_round_123: "Math_round (123 / 10) = 12"
  by code_simp

lemma digits_12: "digits 12 = ''12''"
  by code_simp

lemma Number_toString_12: "Number_toString 12 = ''12''"
  by (simp add: Number_toString_def digits_12)

lemma getWeatherDescription_61: "getWeatherDescription 61 = ''Slight rain''"
  by (simp add: getWeatherDescription_def descriptions_def or_else_def)

lemma london_calls:
  "clickHandler london =
     [ShowLoading ''Getting your location...'',
      ShowLoading ''Fetching weather data...'',
      ShowLoading ''Creating your fragrance profile...'',
      HideLoading,
      UpdateUI \<lparr>weather = \<lparr>temperature = 12, description = ''Slight rain''\<rparr>,
                fragrance = cozy, city = ''London''\<rparr>]"
  by (simp add: flow_defs api_defs scenario_defs london_def Math_round_123
      getWeatherDescription_61)

lemma digits_503: "digits 503 = ''503''"
  by code_simp

lemma london_parts:
  "geolocation london = Some (Inr (515 / 10, - (12 / 100)))"
  "getWeatherData (fetch_weather london) la lo =
     Inr \<lparr>temperature = 12, description = ''Slight rain''\<rparr>"
  "getFragranceFromAI (fetch_ai london) w = Inr cozy"
  by (simp_all add: london_def api_defs scenario_defs Math_round_123 getWeatherDescription_61)

lemma geocode_unreachable_calls:
  "clickHandler geocode_unreachable =
     [ShowLoading ''Getting your location...'',
      ShowLoading ''Fetching weather data...'',
      ShowError ''Failed to fetch'']"
  by (simp add: geocode_unreachable_def flow_defs api_defs scenario_defs london_def Math_round_123
      getWeatherDescription_61)

lemma clickHandler_unsupported:
  "geolocation env = None \<Longrightarrow>
   clickHandler env = [ShowError ''Geolocation is not supported by your browser.'']"
  by (simp add: clickHandler_def)

lemma run_append: "run (xs @ ys) d = run ys (run xs d)"
  by (induction xs arbitrary: d) simp_all

lemma states_append: "states (xs @ ys) d = states xs d @ states ys (run xs d)"
  by (induction xs arbitrary: d) simp_all

lemma run_in_states: "cs \<noteq> [] \<Longrightarrow> run cs d \<in> set (states cs d)"
  by (induction cs arbitrary: d) (case_tac cs, simp_all)+

subsection \<open>The end-to-end scenario\<close>

text \<open>
  C6. In the scenario \<open>london\<close> the handler, from any DOM, ends with the location text
  "Forecast for London", the weather text "Slight rain, 12 degrees C" (with the degree
  sign, the character 0xB0), the recommendation "Amber & Vanilla" and the reason line
  "Mood: Cozy. Warm scents suit rain.", in a visible results panel.
\<close>

theorem end_to_end_london:
  "locationDisplay (run (clickHandler london) d) = ''Forecast for London'' \<and>
   weatherDisplay (run (clickHandler london) d) = ''Slight rain, 12'' @ [CHR 0xB0] @ ''C'' \<and>
   fragranceRecommendation (run (clickHandler london) d) = ''Amber & Vanilla'' \<and>
   fragranceReason (run (clickHandler london) d) = ''Mood: Cozy. Warm scents suit rain.'' \<and>
   visible (resultsDiv (run (clickHandler london) d))"
  by (simp add: london_calls ui_defs Number_toString_12 cozy_def)

subsection \<open>The atmosphere is never rendered\<close>

text \<open>
  C10. Two recommendations that differ only in their atmosphere, with the same city and
  weather, make \<open>updateUI\<close> produce the same DOM: the same four texts, and the same
  everything else.
\<close>

theorem updateUI_ignores_atmosphere:
  "updateUI \<lparr>weather = w, fragrance = f\<lparr>atmosphere := a\<rparr>, city = c\<rparr> d =
   updateUI \<lparr>weather = w, fragrance = f\<lparr>atmosphere := b\<rparr>, city = c\<rparr> d"
  by (simp add: updateUI_def)

subsection \<open>Weather descriptions\<close>

text \<open>
  C2. \<open>getWeatherDescription\<close> is defined on every integer. On each of the 28 codes of
  the table it returns the description the table gives, and on every other integer it
  returns "Unknown weather". (Being a function of the logic, it has no effect.)
\<close>

theorem getWeatherDescription_total:
  "getWeatherDescription 0 = ''Clear sky'' \<and>
   getWeatherDescription 1 = ''Mainly clear'' \<and>
   getWeatherDescription 2 = ''Partly cloudy'' \<and>
   getWeatherDescription 3 = ''Overcast'' \<and>
   getWeatherDescription 45 = ''Fog'' \<and>
   getWeatherDescription 48 = ''Depositing rime fog'' \<and>
   getWeatherDescription 51 = ''Light drizzle'' \<and>
   getWeatherDescription 53 = ''Moderate drizzle'' \<and>
   getWeatherDescription 55 = ''Dense drizzle'' \<and>
   getWeatherDescription 56 = ''Light freezing drizzle'' \<and>
   getWeatherDescription 57 = ''Dense freezing drizzle'' \<and>
   getWeatherDescription 61 = ''Slight rain'' \<and>
   getWeatherDescription 63 = ''Moderate rain'' \<and>
   getWeatherDescription 65 = ''Heavy rain'' \<and>
   getWeatherDescription 66 = ''Light freezing rain'' \<and>
   getWeatherDescription 67 = ''Heavy freezing rain'' \<and>
   getWeatherDescription 71 = ''Slight snow fall'' \<and>
   getWeatherDescription 73 = ''Moderate snow fall'' \<and>
   getWeatherDescription 75 = ''Heavy snow fall'' \<and>
   getWeatherDescription 77 = ''Snow grains'' \<and>
   getWeatherDescription 80 = ''Slight rain showers'' \<and>
   getWeatherDescription 81 = ''Moderate rain showers'' \<and>
   getWeatherDescription 82 = ''Violent rain showers'' \<and>
   getWeatherDescription 85 = ''Slight snow showers'' \<and>
   getWeatherDescription 86 = ''Heavy snow showers'' \<and>
   getWeatherDescription 95 = ''Thunderstorm'' \<and>
   getWeatherDescription 96 = ''Thunderstorm with slight hail'' \<and>
   getWeatherDescription 99 = ''Thunderstorm with heavy hail'' \<and>
   (\<forall>code. code \<notin> {0, 1, 2, 3, 45, 48, 51, 53, 55, 56, 57, 61, 63, 65, 66, 67, 71, 73, 75, 77,
                     80, 81, 82, 85, 86, 95, 96, 99}
      \<longrightarrow> getWeatherDescription code = ''Unknown weather'')"
  by (simp add: getWeatherDescription_def descriptions_def or_else_def)

theorem getWeatherDescription_total_witness:
  "(4::int) \<notin> {0, 1, 2, 3, 45, 48, 51, 53, 55, 56, 57, 61, 63, 65, 66, 67, 71, 73, 75, 77,
                80, 81, 82, 85, 86, 95, 96, 99} \<and>
   getWeatherDescription 4 = ''Unknown weather'' \<and>
   getWeatherDescription (- 1) = ''Unknown weather''"
proof -
  have "\<forall>code. code \<notin> {0, 1, 2, 3, 45, 48, 51, 53, 55, 56, 57, 61, 63, 65, 66, 67, 71, 73, 75, 77,
                        80, 81, 82, 85, 86, 95, 96, 99}
          \<longrightarrow> getWeatherDescription code = ''Unknown weather''"
    using getWeatherDescription_total by (elim conjE)
  then have "getWeatherDescription 4 = ''Unknown weather''"
    and "getWeatherDescription (- 1) = ''Unknown weather''"
    by simp_all
  then show ?thesis by simp
qed

subsection \<open>Rounding of the temperature\<close>

lemma Math_round_nearest: "\<bar>of_int (Math_round x) - x\<bar> \<le> \<bar>of_int n - x\<bar>"
  by (metis Math_round_def abs_minus_commute round_def round_diff_minimal)

lemma Math_round_half: "\<bar>of_int (Math_round x) - x\<bar> \<le> 1 / 2"
  unfolding Math_round_def by linarith

lemma Math_round_examples:
  "Math_round (146 / 10) = 15"
  "Math_round (144 / 10) = 14"
  "Math_round (- (146 / 10)) = - 15"
  "Math_round (- (144 / 10)) = - 14"
  "Math_round (25 / 10) = 3"
  "Math_round (- (25 / 10)) = - 2"
  by code_simp+

text \<open>
  C5. When the weather provider answers successfully with a raw temperature,
  \<open>getWeatherData\<close> returns a reading whose temperature is an integer nearest to the raw
  value: it is at most one half away from it, and no integer is closer. This holds for
  negative and for positive values alike.
\<close>

theorem getWeatherData_rounds:
  assumes "fetch latitude longitude = Inr response"
    and "ok response"
    and "json response = Inr data"
    and "current_weather data = Some cw"
  shows "\<exists>w. getWeatherData fetch latitude longitude = Inr w \<and>
           \<bar>of_int (weatherData.temperature w) - current_weather.temperature cw\<bar> \<le> 1 / 2 \<and>
           (\<forall>n. \<bar>of_int (weatherData.temperature w) - current_weather.temperature cw\<bar>
                 \<le> \<bar>of_int n - current_weather.temperature cw\<bar>)"
proof -
  let ?t = "current_weather.temperature cw"
  have "getWeatherData fetch latitude longitude =
          Inr \<lparr>temperature = Math_round ?t,
               description = getWeatherDescription (weathercode cw)\<rparr>"
    using assms by (simp add: getWeatherData_def)
  moreover have "\<bar>of_int (Math_round ?t) - ?t\<bar> \<le> 1 / 2"
    by (rule Math_round_half)
  moreover have "\<forall>n. \<bar>of_int (Math_round ?t) - ?t\<bar> \<le> \<bar>of_int n - ?t\<bar>"
    by (simp add: Math_round_nearest)
  ultimately show ?thesis by simp
qed

theorem getWeatherData_rounds_witness:
  "weather_replies (- (146 / 10)) 3 =
     Inr \<lparr>status = 200,
          json = Inr \<lparr>current_weather =
                        Some \<lparr>current_weather.temperature = - (146 / 10), weathercode = 3\<rparr>\<rparr>\<rparr> \<and>
   ok \<lparr>status = 200,
       json = Inr \<lparr>current_weather =
                     Some \<lparr>current_weather.temperature = - (146 / 10), weathercode = 3\<rparr>\<rparr>\<rparr> \<and>
   (\<exists>w. getWeatherData (\<lambda>latitude longitude. weather_replies (- (146 / 10)) 3)
          (515 / 10) (- (12 / 100)) = Inr w \<and>
        \<bar>of_int (weatherData.temperature w) - (- (146 / 10))\<bar> \<le> (1 / 2 :: rat))"
proof -
  let ?cw = "\<lparr>current_weather.temperature = - (146 / 10), weathercode = 3\<rparr>"
  let ?data = "\<lparr>current_weather = Some ?cw\<rparr>"
  let ?response = "\<lparr>status = 200, json = Inr ?data\<rparr>"
  have 1: "weather_replies (- (146 / 10)) 3 = Inr ?response"
    by (simp add: weather_replies_def)
  have 2: "ok ?response"
    by (simp add: ok_def)
  have "\<exists>w. getWeatherData (\<lambda>latitude longitude. weather_replies (- (146 / 10)) 3)
               (515 / 10) (- (12 / 100)) = Inr w \<and>
            \<bar>of_int (weatherData.temperature w) - (- (146 / 10))\<bar> \<le> (1 / 2 :: rat) \<and>
            (\<forall>n. \<bar>of_int (weatherData.temperature w) - (- (146 / 10))\<bar>
                  \<le> \<bar>of_int n - (- (146 / 10) :: rat)\<bar>)"
    using getWeatherData_rounds
            [where fetch = "\<lambda>latitude longitude. weather_replies (- (146 / 10)) 3"
               and latitude = "515 / 10" and longitude = "- (12 / 100)"
               and response = ?response and data = ?data and cw = ?cw]
          1 2
    by simp
  then have "\<exists>w. getWeatherData (\<lambda>latitude longitude. weather_replies (- (146 / 10)) 3)
               (515 / 10) (- (12 / 100)) = Inr w \<and>
            \<bar>of_int (weatherData.temperature w) - (- (146 / 10))\<bar> \<le> (1 / 2 :: rat)"
    by blast
  with 1 2 show ?thesis by blast
qed

subsection \<open>The city name\<close>

text \<open>
  C9. When the geocode response is successful and its payload has an address object,
  \<open>getCityName\<close> returns the city when it is present and not empty; otherwise the town
  when it is present and not empty; otherwise "your location". An empty city is treated
  as a missing one.
\<close>

theorem getCityName_precedence:
  assumes "fetch latitude longitude = Inr response"
    and "ok response"
    and "json response = Inr data"
    and "address data = Some a"
  shows "(\<forall>c. address.city a = Some c \<and> c \<noteq> [] \<longrightarrow>
             getCityName fetch latitude longitude = Inr c) \<and>
         (address.city a = None \<or> address.city a = Some [] \<longrightarrow>
            (\<forall>t. town a = Some t \<and> t \<noteq> [] \<longrightarrow>
                 getCityName fetch latitude longitude = Inr t) \<and>
            (town a = None \<or> town a = Some [] \<longrightarrow>
               getCityName fetch latitude longitude = Inr ''your location''))"
  using assms by (auto simp add: getCityName_def or_else_def)

theorem getCityName_precedence_witness:
  "getCityName (\<lambda>latitude longitude. geo_replies (Some ''London'') (Some ''Camden'')) 0 0
     = Inr ''London'' \<and>
   getCityName (\<lambda>latitude longitude. geo_replies (Some []) (Some ''Ely'')) 0 0
     = Inr ''Ely'' \<and>
   getCityName (\<lambda>latitude longitude. geo_replies None None) 0 0
     = Inr ''your location''"
proof -
  have 1: "getCityName (\<lambda>latitude longitude. geo_replies (Some ''London'') (Some ''Camden'')) 0 0
             = Inr ''London''"
    using getCityName_precedence
            [where fetch = "\<lambda>latitude longitude. geo_replies (Some ''London'') (Some ''Camden'')"
               and latitude = 0 and longitude = 0
               and response =
                 "\<lparr>status = 200,
                   json = Inr \<lparr>address = Some \<lparr>address.city = Some ''London'', town = Some ''Camden''\<rparr>\<rparr>\<rparr>"
               and data = "\<lparr>address = Some \<lparr>address.city = Some ''London'', town = Some ''Camden''\<rparr>\<rparr>"
               and a = "\<lparr>address.city = Some ''London'', town = Some ''Camden''\<rparr>"]
    by (simp add: geo_replies_def ok_def)
  have 2: "getCityName (\<lambda>latitude longitude. geo_replies (Some []) (Some ''Ely'')) 0 0
             = Inr ''Ely''"
    using getCityName_precedence
            [where fetch = "\<lambda>latitude longitude. geo_replies (Some []) (Some ''Ely'')"
               and latitude = 0 and longitude = 0
               and response =
                 "\<lparr>status = 200,
                   json = Inr \<lparr>address = Some \<lparr>address.city = Some [], town = Some ''Ely''\<rparr>\<rparr>\<rparr>"
               and data = "\<lparr>address = Some \<lparr>address.city = Some [], town = Some ''Ely''\<rparr>\<rparr>"
               and a = "\<lparr>address.city = Some [], town = Some ''Ely''\<rparr>"]
    by (simp add: geo_replies_def ok_def)
  have 3: "getCityName (\<lambda>latitude longitude. geo_replies None None) 0 0
             = Inr ''your location''"
    using getCityName_precedence
            [where fetch = "\<lambda>latitude longitude. geo_replies (None) (None)"
               and latitude = 0 and longitude = 0
               and response =
                 "\<lparr>status = 200,
                   json = Inr \<lparr>address = Some \<lparr>address.city = None, town = None\<rparr>\<rparr>\<rparr>"
               and data = "\<lparr>address = Some \<lparr>address.city = None, town = None\<rparr>\<rparr>"
               and a = "\<lparr>address.city = None, town = None\<rparr>"]
    by (simp add: geo_replies_def ok_def)
  from 1 2 3 show ?thesis by simp
qed

subsection \<open>Geolocation failures\<close>

text \<open>
  C7. Without the geolocation capability the handler shows the unsupported message.
  When the geolocation callback reports an error, the message for the code
  \<open>PERMISSION_DENIED\<close> differs from the message for any other code, and both differ from
  the unsupported message. In each case the error panel is visible.
\<close>

theorem geolocation_messages:
  "clickHandler (env\<lparr>geolocation := None\<rparr>) =
     [ShowError ''Geolocation is not supported by your browser.''] \<and>
   clickHandler (env\<lparr>geolocation := Some (Inl (PositionError code))\<rparr>) =
     [ShowLoading ''Getting your location...'',
      ShowError (if code = PERMISSION_DENIED
                 then ''Location access was denied. Please enable it in your browser settings.''
                 else ''Could not get your location. Please allow location access.'')] \<and>
   (code \<noteq> PERMISSION_DENIED \<longrightarrow>
      errorMessage (run (clickHandler
          (env\<lparr>geolocation := Some (Inl (PositionError PERMISSION_DENIED))\<rparr>)) d)
        \<noteq> errorMessage (run (clickHandler
              (env\<lparr>geolocation := Some (Inl (PositionError code))\<rparr>)) d) \<and>
      errorMessage (run (clickHandler (env\<lparr>geolocation := None\<rparr>)) d)
        \<noteq> errorMessage (run (clickHandler
              (env\<lparr>geolocation := Some (Inl (PositionError code))\<rparr>)) d)) \<and>
   errorMessage (run (clickHandler (env\<lparr>geolocation := None\<rparr>)) d)
     \<noteq> errorMessage (run (clickHandler
           (env\<lparr>geolocation := Some (Inl (PositionError PERMISSION_DENIED))\<rparr>)) d) \<and>
   visible (errorBox (run (clickHandler (env\<lparr>geolocation := None\<rparr>)) d)) \<and>
   visible (errorBox (run (clickHandler
       (env\<lparr>geolocation := Some (Inl (PositionError code))\<rparr>)) d))"
  by (simp add: flow_defs ui_defs)

theorem geolocation_messages_witness:
  "(2::nat) \<noteq> PERMISSION_DENIED \<and>
   errorMessage (run (clickHandler
       (london\<lparr>geolocation := Some (Inl (PositionError PERMISSION_DENIED))\<rparr>)) page_loaded)
     \<noteq> errorMessage (run (clickHandler
           (london\<lparr>geolocation := Some (Inl (PositionError 2))\<rparr>)) page_loaded) \<and>
   errorMessage (run (clickHandler (london\<lparr>geolocation := None\<rparr>)) page_loaded)
     \<noteq> errorMessage (run (clickHandler
           (london\<lparr>geolocation := Some (Inl (PositionError 2))\<rparr>)) page_loaded)"
proof -
  have "(2::nat) \<noteq> PERMISSION_DENIED"
    by (simp add: PERMISSION_DENIED_def)
  with geolocation_messages [of london 2 page_loaded] show ?thesis
    by (intro conjI) (elim conjE impE, assumption+)+
qed

subsection \<open>A failing weather provider\<close>

lemma Promise_all_rejected: "\<exists>e'. Promise_all s (Inl e) q = Inl e'"
  by (cases q) (simp_all add: Promise_all_def)

lemma states_results_hidden_error:
  "set (states [ShowLoading a, ShowLoading b, ShowError m] d)
     \<subseteq> {d'. \<not> visible (resultsDiv d')}"
  by (simp add: ui_defs)

text \<open>
  C3. When the position is obtained and the weather provider's response is not
  successful, \<open>getWeatherData\<close> fails, the handler ends with \<open>showError\<close> after the two
  loading messages, the results panel is hidden in every DOM the handler passes through,
  and the error panel is visible at the end; whatever the geocoding call does.
\<close>

theorem weather_failure_is_fatal:
  assumes "geolocation env = Some (Inr (latitude, longitude))"
    and "fetch_weather env latitude longitude = Inr response"
    and "\<not> ok response"
  shows "getWeatherData (fetch_weather env) latitude longitude =
           Inl (Error ''Could not fetch weather data.'') \<and>
         (\<exists>msg. clickHandler env =
                  [ShowLoading ''Getting your location...'',
                   ShowLoading ''Fetching weather data...'',
                   ShowError msg]) \<and>
         (\<forall>d' \<in> set (states (clickHandler env) d). \<not> visible (resultsDiv d')) \<and>
         visible (errorBox (run (clickHandler env) d)) \<and>
         \<not> visible (resultsDiv (run (clickHandler env) d))"
proof -
  have w: "getWeatherData (fetch_weather env) latitude longitude =
             Inl (Error ''Could not fetch weather data.'')"
    using assms by (simp add: getWeatherData_def)
  obtain e where "Promise_all (first env)
      (getWeatherData (fetch_weather env) latitude longitude)
      (getCityName (fetch_geo env) latitude longitude) = Inl e"
    using Promise_all_rejected [of "first env" "Error ''Could not fetch weather data.''"]
    unfolding w by blast
  then have c: "clickHandler env =
      [ShowLoading ''Getting your location...'', ShowLoading ''Fetching weather data...'',
       ShowError (or_else (Some (message e)) ''An unknown error occurred.'')]"
    using assms(1) by (simp add: flow_defs)
  have "\<forall>d' \<in> set (states (clickHandler env) d). \<not> visible (resultsDiv d')"
    unfolding c using states_results_hidden_error by blast
  moreover have "visible (errorBox (run (clickHandler env) d))"
    and "\<not> visible (resultsDiv (run (clickHandler env) d))"
    unfolding c by (simp_all add: ui_defs)
  ultimately show ?thesis using w c by (intro conjI exI) assumption+
qed

theorem weather_failure_is_fatal_witness:
  "geolocation weather_unavailable = Some (Inr (515 / 10, - (12 / 100))) \<and>
   \<not> ok (\<lparr>status = 503, json = Inl (SyntaxError ''Unexpected token'')\<rparr>
           :: weather_payload response) \<and>
   getWeatherData (fetch_weather weather_unavailable) (515 / 10) (- (12 / 100)) =
     Inl (Error ''Could not fetch weather data.'') \<and>
   visible (errorBox (run (clickHandler weather_unavailable) page_loaded)) \<and>
   \<not> visible (resultsDiv (run (clickHandler weather_unavailable) page_loaded))"
proof -
  let ?r = "\<lparr>status = 503, json = Inl (SyntaxError ''Unexpected token'')\<rparr>
              :: weather_payload response"
  have 1: "geolocation weather_unavailable = Some (Inr (515 / 10, - (12 / 100)))"
    by (simp add: weather_unavailable_def london_def)
  have 2: "fetch_weather weather_unavailable (515 / 10) (- (12 / 100)) = Inr ?r"
    by (simp add: weather_unavailable_def)
  have 3: "\<not> ok ?r"
    by (simp add: ok_def)
  from weather_failure_is_fatal [OF 1 2 3, of page_loaded] 1 3 show ?thesis
    by (intro conjI) (elim conjE, assumption)+
qed

subsection \<open>A failing geocoding provider\<close>

text \<open>
  The paths of \<open>getCityName\<close> that fall back. In a run in which the position is obtained
  and \<open>getWeatherData\<close> and \<open>getFragranceFromAI\<close> succeed, a geocode response that is
  not successful, or a successful one whose address object has neither a non-empty city
  nor a non-empty town, is absorbed: \<open>getCityName\<close> returns "your location" and the
  handler ends with \<open>updateUI\<close> and the location text "Forecast for your location".
\<close>

lemma geocode_fallback_paths:
  assumes "geolocation env = Some (Inr (latitude, longitude))"
    and "getWeatherData (fetch_weather env) latitude longitude = Inr w"
    and "getFragranceFromAI (fetch_ai env) w = Inr f"
    and "fetch_geo env latitude longitude = Inr response"
    and "\<not> ok response \<or>
         (\<exists>data a. json response = Inr data \<and> address data = Some a \<and>
            (address.city a = None \<or> address.city a = Some []) \<and>
            (town a = None \<or> town a = Some []))"
  shows "getCityName (fetch_geo env) latitude longitude = Inr ''your location'' \<and>
         clickHandler env =
           [ShowLoading ''Getting your location...'',
            ShowLoading ''Fetching weather data...'',
            ShowLoading ''Creating your fragrance profile...'',
            HideLoading,
            UpdateUI \<lparr>weather = w, fragrance = f, city = ''your location''\<rparr>] \<and>
         locationDisplay (run (clickHandler env) d) = ''Forecast for your location'' \<and>
         visible (resultsDiv (run (clickHandler env) d)) \<and>
         \<not> visible (errorBox (run (clickHandler env) d)) \<and>
         \<not> visible (loadingDiv (run (clickHandler env) d))"
proof -
  have g: "getCityName (fetch_geo env) latitude longitude = Inr ''your location''"
    using assms(4,5) by (auto simp add: getCityName_def or_else_def)
  have c: "clickHandler env =
           [ShowLoading ''Getting your location...'',
            ShowLoading ''Fetching weather data...'',
            ShowLoading ''Creating your fragrance profile...'',
            HideLoading,
            UpdateUI \<lparr>weather = w, fragrance = f, city = ''your location''\<rparr>]"
    using assms(1,2,3) g by (simp add: flow_defs Promise_all_def)
  have "locationDisplay (run (clickHandler env) d) = ''Forecast for your location''"
    and "visible (resultsDiv (run (clickHandler env) d))"
    and "\<not> visible (errorBox (run (clickHandler env) d))"
    and "\<not> visible (loadingDiv (run (clickHandler env) d))"
    unfolding c by (simp_all add: ui_defs)
  with g c show ?thesis by (intro conjI) assumption+
qed

lemma geocode_fallback_paths_example:
  "locationDisplay (run (clickHandler geocode_unavailable) page_loaded) = ''Forecast for your location'' \<and>
   visible (resultsDiv (run (clickHandler geocode_unavailable) page_loaded)) \<and>
   \<not> visible (errorBox (run (clickHandler geocode_unavailable) page_loaded)) \<and>
   locationDisplay (run (clickHandler geocode_nameless) page_loaded) = ''Forecast for your location'' \<and>
   visible (resultsDiv (run (clickHandler geocode_nameless) page_loaded)) \<and>
   \<not> visible (errorBox (run (clickHandler geocode_nameless) page_loaded))"
proof -
  let ?w = "\<lparr>temperature = 12, description = ''Slight rain''\<rparr>"
  let ?r1 = "\<lparr>status = 500, json = Inl (SyntaxError ''Unexpected token'')\<rparr> :: geo_payload response"
  let ?a = "\<lparr>address.city = None, town = Some []\<rparr>"
  let ?r2 = "\<lparr>status = 200, json = Inr \<lparr>address = Some ?a\<rparr>\<rparr>"
  have u1: "geolocation geocode_unavailable = Some (Inr (515 / 10, - (12 / 100)))"
    and u2: "getWeatherData (fetch_weather geocode_unavailable) (515 / 10) (- (12 / 100)) = Inr ?w"
    and u3: "getFragranceFromAI (fetch_ai geocode_unavailable) ?w = Inr cozy"
    and u4: "fetch_geo geocode_unavailable (515 / 10) (- (12 / 100)) = Inr ?r1"
    using london_parts by (simp_all add: geocode_unavailable_def)
  have u5: "\<not> ok ?r1 \<or>
         (\<exists>data a. json ?r1 = Inr data \<and> address data = Some a \<and>
            (address.city a = None \<or> address.city a = Some []) \<and>
            (town a = None \<or> town a = Some []))"
    by (simp add: ok_def)
  have n1: "geolocation geocode_nameless = Some (Inr (515 / 10, - (12 / 100)))"
    and n2: "getWeatherData (fetch_weather geocode_nameless) (515 / 10) (- (12 / 100)) = Inr ?w"
    and n3: "getFragranceFromAI (fetch_ai geocode_nameless) ?w = Inr cozy"
    and n4: "fetch_geo geocode_nameless (515 / 10) (- (12 / 100)) = Inr ?r2"
    using london_parts by (simp_all add: geocode_nameless_def geo_replies_def)
  have n5: "\<not> ok ?r2 \<or>
         (\<exists>data a. json ?r2 = Inr data \<and> address data = Some a \<and>
            (address.city a = None \<or> address.city a = Some []) \<and>
            (town a = None \<or> town a = Some []))"
    by simp
  from geocode_fallback_paths [OF u1 u2 u3 u4 u5, of page_loaded]
       geocode_fallback_paths [OF n1 n2 n3 n4 n5, of page_loaded]
  show ?thesis by (intro conjI) (elim conjE, assumption)+
qed

lemma geocode_without_address_calls:
  "clickHandler geocode_without_address =
     [ShowLoading ''Getting your location...'',
      ShowLoading ''Fetching weather data...'',
      ShowError (''Cannot read properties of undefined (reading '' @ [CHR 0x27] @ ''city''
                   @ [CHR 0x27] @ '')'')]"
  by (simp add: geocode_without_address_def flow_defs api_defs scenario_defs london_def
      Math_round_123 getWeatherDescription_61 read_of_undefined_def)

text \<open>
  C1. The claim is what \<open>getCityName\<close> sets out to do, and the code misses it on two
  paths. In the scenario \<open>geocode_unreachable\<close> the weather and the recommendation are
  obtained and only the geocoding \<open>fetch\<close> rejects: the \<open>await\<close> has no handler, the
  rejection reaches the \<open>catch\<close> of the flow, and the handler ends with the error panel
  showing the rejection's message, the results panel hidden and no location text
  written. In the scenario \<open>geocode_without_address\<close> the response is successful and its
  body has no address object, hence no city or town: reading \<open>city\<close> throws, and the
  handler ends with the error panel in the same way.
\<close>

theorem geocode_failure_is_surfaced:
  "getWeatherData (fetch_weather geocode_unreachable) (515 / 10) (- (12 / 100)) =
     Inr \<lparr>temperature = 12, description = ''Slight rain''\<rparr> \<and>
   getFragranceFromAI (fetch_ai geocode_unreachable)
     \<lparr>temperature = 12, description = ''Slight rain''\<rparr> = Inr cozy \<and>
   getCityName (fetch_geo geocode_unreachable) (515 / 10) (- (12 / 100)) =
     Inl (TypeError ''Failed to fetch'') \<and>
   clickHandler geocode_unreachable =
     [ShowLoading ''Getting your location...'',
      ShowLoading ''Fetching weather data...'',
      ShowError ''Failed to fetch''] \<and>
   visible (errorBox (run (clickHandler geocode_unreachable) page_loaded)) \<and>
   errorMessage (run (clickHandler geocode_unreachable) page_loaded) = ''Failed to fetch'' \<and>
   \<not> visible (resultsDiv (run (clickHandler geocode_unreachable) page_loaded)) \<and>
   locationDisplay (run (clickHandler geocode_unreachable) page_loaded)
     \<noteq> ''Forecast for your location'' \<and>
   getCityName (fetch_geo geocode_without_address) (515 / 10) (- (12 / 100)) =
     Inl (TypeError (''Cannot read properties of undefined (reading '' @ [CHR 0x27] @ ''city''
                       @ [CHR 0x27] @ '')'')) \<and>
   visible (errorBox (run (clickHandler geocode_without_address) page_loaded)) \<and>
   \<not> visible (resultsDiv (run (clickHandler geocode_without_address) page_loaded)) \<and>
   locationDisplay (run (clickHandler geocode_without_address) page_loaded)
     \<noteq> ''Forecast for your location''"
  unfolding geocode_unreachable_calls geocode_without_address_calls
  by (simp add: geocode_unreachable_def geocode_without_address_def london_def api_defs
      scenario_defs Math_round_123 getWeatherDescription_61 ui_defs page_loaded_def
      read_of_undefined_def)


subsection \<open>Failures of the generative text provider\<close>

text \<open>
  The failures \<open>getFragranceFromAI\<close> reports itself. When the response is not
  successful, it fails with the error "AI API request failed with status" followed by
  the status in decimal digits. When the response is successful and the list of
  candidates in its body is absent or empty, it fails with the error "Invalid response
  structure from AI API.".
\<close>

lemma getFragranceFromAI_reported_failures:
  assumes "fetch weatherData = Inr response"
  shows "(\<not> ok response \<longrightarrow>
            getFragranceFromAI fetch weatherData =
              Inl (Error (''AI API request failed with status '' @ digits (status response)))) \<and>
         (ok response \<and>
          (\<exists>result. json response = Inr result \<and>
             (candidates result = None \<or> candidates result = Some [])) \<longrightarrow>
            getFragranceFromAI fetch weatherData =
              Inl (Error ''Invalid response structure from AI API.''))"
  using assms by (auto simp add: getFragranceFromAI_def)

lemma getFragranceFromAI_reported_failures_example:
  "\<not> ok (\<lparr>status = 503, json = Inl (SyntaxError ''Unexpected token'')\<rparr> :: ai_payload response) \<and>
   getFragranceFromAI (\<lambda>weatherData. Inr \<lparr>status = 503, json = Inl (SyntaxError ''Unexpected token'')\<rparr>)
       \<lparr>temperature = 12, description = ''Slight rain''\<rparr> =
     Inl (Error ''AI API request failed with status 503'') \<and>
   ok \<lparr>status = 200, json = Inr \<lparr>candidates = Some []\<rparr>\<rparr> \<and>
   getFragranceFromAI (\<lambda>weatherData. Inr \<lparr>status = 200, json = Inr \<lparr>candidates = Some []\<rparr>\<rparr>)
       \<lparr>temperature = 12, description = ''Slight rain''\<rparr> =
     Inl (Error ''Invalid response structure from AI API.'') \<and>
   getFragranceFromAI (\<lambda>weatherData. Inr \<lparr>status = 200, json = Inr \<lparr>candidates = None\<rparr>\<rparr>)
       \<lparr>temperature = 12, description = ''Slight rain''\<rparr> =
     Inl (Error ''Invalid response structure from AI API.'')"
proof -
  let ?w = "\<lparr>temperature = 12, description = ''Slight rain''\<rparr>"
  let ?r1 = "\<lparr>status = 503, json = Inl (SyntaxError ''Unexpected token'')\<rparr> :: ai_payload response"
  let ?r2 = "\<lparr>status = 200, json = Inr \<lparr>candidates = Some []\<rparr>\<rparr>"
  let ?r3 = "\<lparr>status = 200, json = Inr \<lparr>candidates = None\<rparr>\<rparr>"
  have 1: "\<not> ok ?r1" and 2: "ok ?r2"
    by (simp_all add: ok_def)
  have "getFragranceFromAI (\<lambda>weatherData. Inr ?r1) ?w =
          Inl (Error (''AI API request failed with status '' @ digits 503))"
    using getFragranceFromAI_reported_failures [where fetch = "\<lambda>weatherData. Inr ?r1" and weatherData = ?w
            and response = ?r1] 1
    by simp
  then have 3: "getFragranceFromAI (\<lambda>weatherData. Inr ?r1) ?w =
          Inl (Error ''AI API request failed with status 503'')"
    by (simp add: digits_503)
  have 4: "getFragranceFromAI (\<lambda>weatherData. Inr ?r2) ?w =
          Inl (Error ''Invalid response structure from AI API.'')"
    using getFragranceFromAI_reported_failures [where fetch = "\<lambda>weatherData. Inr ?r2" and weatherData = ?w
            and response = ?r2] 2
    by simp
  have 5: "getFragranceFromAI (\<lambda>weatherData. Inr ?r3) ?w =
          Inl (Error ''Invalid response structure from AI API.'')"
    using getFragranceFromAI_reported_failures [where fetch = "\<lambda>weatherData. Inr ?r3" and weatherData = ?w
            and response = ?r3]
    by (simp add: ok_def)
  from 1 2 3 4 5 show ?thesis by (intro conjI)
qed

lemma ai_without_content_calls:
  "clickHandler ai_without_content =
     [ShowLoading ''Getting your location...'',
      ShowLoading ''Fetching weather data...'',
      ShowLoading ''Creating your fragrance profile...'',
      ShowError (''Cannot read properties of undefined (reading '' @ [CHR 0x27] @ ''parts''
                   @ [CHR 0x27] @ '')'')]"
  by (simp add: ai_without_content_def candidate_without_content_def flow_defs api_defs
      scenario_defs london_def Math_round_123 getWeatherDescription_61 read_of_undefined_def)

text \<open>
  C4. The claim is what the shape check of \<open>getFragranceFromAI\<close> sets out to do, and the
  check stops one level short. A successful response whose only candidate has no content
  lacks the expected structure, but its list of candidates is not empty: the script
  goes on to read \<open>parts\<close> of \<open>undefined\<close>, and what is thrown, and shown in the error
  panel, is the engine's \<open>TypeError\<close>, not the script's error about an invalid response
  structure.
\<close>

theorem candidate_without_content_leaks:
  "getFragranceFromAI candidate_without_content \<lparr>temperature = 12, description = ''Slight rain''\<rparr> =
     Inl (TypeError (''Cannot read properties of undefined (reading '' @ [CHR 0x27] @ ''parts''
                       @ [CHR 0x27] @ '')'')) \<and>
   getFragranceFromAI candidate_without_content \<lparr>temperature = 12, description = ''Slight rain''\<rparr> \<noteq>
     Inl (Error ''Invalid response structure from AI API.'') \<and>
   visible (errorBox (run (clickHandler ai_without_content) page_loaded)) \<and>
   errorMessage (run (clickHandler ai_without_content) page_loaded) =
     ''Cannot read properties of undefined (reading '' @ [CHR 0x27] @ ''parts'' @ [CHR 0x27]
       @ '')'' \<and>
   errorMessage (run (clickHandler ai_without_content) page_loaded) \<noteq>
     ''Invalid response structure from AI API.''"
  unfolding ai_without_content_calls
  by (simp add: getFragranceFromAI_def candidate_without_content_def ok_def
      read_of_undefined_def ui_defs page_loaded_def)


subsection \<open>Visibility of the panels\<close>

lemma clickHandler_shapes:
  assumes "geolocation env \<noteq> None"
  shows "(\<exists>a m. clickHandler env = [ShowLoading a, ShowError m]) \<or>
         (\<exists>a b m. clickHandler env = [ShowLoading a, ShowLoading b, ShowError m]) \<or>
         (\<exists>a b c m. clickHandler env = [ShowLoading a, ShowLoading b, ShowLoading c, ShowError m]) \<or>
         (\<exists>a b c data. clickHandler env =
            [ShowLoading a, ShowLoading b, ShowLoading c, HideLoading, UpdateUI data])"
  using assms
  by (auto simp add: flow_defs split: option.splits sum.splits prod.splits positionError.splits)

lemma shapes_exclusive:
  "\<forall>d' \<in> set (states [ShowLoading a, ShowError m] d). at_most_one_visible d'"
  "\<forall>d' \<in> set (states [ShowLoading a, ShowLoading b, ShowError m] d). at_most_one_visible d'"
  "\<forall>d' \<in> set (states [ShowLoading a, ShowLoading b, ShowLoading c, ShowError m] d).
      at_most_one_visible d'"
  "\<forall>d' \<in> set (states [ShowLoading a, ShowLoading b, ShowLoading c, HideLoading, UpdateUI data] d).
      at_most_one_visible d'"
  by (simp_all add: ui_defs at_most_one_visible_def)

lemma click_exclusive:
  assumes "geolocation env \<noteq> None"
  shows "\<forall>d' \<in> set (states (clickHandler env) d). at_most_one_visible d'"
  using clickHandler_shapes [OF assms] shapes_exclusive [where d = d] by metis

lemma unsupported_step:
  assumes "geolocation env = None" and "at_most_one_visible d" and "\<not> visible (resultsDiv d)"
  shows "(\<forall>d' \<in> set (states (clickHandler env) d).
            at_most_one_visible d' \<and> \<not> visible (resultsDiv d')) \<and>
         at_most_one_visible (run (clickHandler env) d) \<and>
         \<not> visible (resultsDiv (run (clickHandler env) d))"
  using assms by (simp add: flow_defs ui_defs at_most_one_visible_def)

lemma kept_runs:
  assumes "at_most_one_visible d"
    and "visible (resultsDiv d) \<longrightarrow> seen"
    and "capability_kept seen envs"
  shows "\<forall>d' \<in> set (states (concat (map clickHandler envs)) d). at_most_one_visible d'"
  using assms
proof (induction envs arbitrary: d seen)
  case Nil
  then show ?case by simp
next
  case (Cons env envs)
  show ?case
  proof (cases "geolocation env = None")
    case True
    with Cons.prems(3) have "\<not> seen"
      by auto
    with Cons.prems(2) have h: "\<not> visible (resultsDiv d)"
      by simp
    note u = unsupported_step [OF True Cons.prems(1) h]
    have k: "capability_kept seen envs"
      using Cons.prems(3) True by (cases seen) simp_all
    have "\<forall>d' \<in> set (states (concat (map clickHandler envs)) (run (clickHandler env) d)).
            at_most_one_visible d'"
      using Cons.IH [of "run (clickHandler env) d" seen] u k by simp
    with u show ?thesis
      by (auto simp add: states_append)
  next
    case False
    have s: "\<forall>d' \<in> set (states (clickHandler env) d). at_most_one_visible d'"
      by (rule click_exclusive [OF False])
    have "clickHandler env \<noteq> []"
      using clickHandler_shapes [OF False] by auto
    then have "run (clickHandler env) d \<in> set (states (clickHandler env) d)"
      by (rule run_in_states)
    with s have r: "at_most_one_visible (run (clickHandler env) d)"
      by blast
    have k: "capability_kept True envs"
      using Cons.prems(3) False by simp
    have "\<forall>d' \<in> set (states (concat (map clickHandler envs)) (run (clickHandler env) d)).
            at_most_one_visible d'"
      using Cons.IH [of "run (clickHandler env) d" True] r k by simp
    with s show ?thesis
      by (auto simp add: states_append)
  qed
qed

text \<open>
  C8. Take the clicks on one page, where \<open>navigator.geolocation\<close>, once found, stays,
  from a DOM in which at most one of the three panels is visible (and, when the results
  panel is the visible one, the capability has been found before). The UI functions are
  called by the handler only, so the DOMs reached are the start and the DOM after each
  UI call of each run. In every one of them at most one of the loading indicator, the
  error panel and the results panel is visible; in particular no \<open>showError\<close> leaves the
  results panel visible beside the error panel.
\<close>

theorem panels_exclusive_on_page:
  assumes "at_most_one_visible d"
    and "visible (resultsDiv d) \<longrightarrow> seen"
    and "capability_kept seen envs"
  shows "\<forall>d' \<in> set (d # states (concat (map clickHandler envs)) d). at_most_one_visible d'"
  using assms kept_runs [OF assms] by simp

theorem panels_exclusive_on_page_witness:
  "at_most_one_visible page_loaded \<and>
   \<not> visible (resultsDiv page_loaded) \<and>
   capability_kept False [london\<lparr>geolocation := None\<rparr>, weather_unavailable, london, london] \<and>
   at_most_one_visible (run (clickHandler (london\<lparr>geolocation := None\<rparr>)) page_loaded) \<and>
   at_most_one_visible
     (run (clickHandler (london\<lparr>geolocation := None\<rparr>) @ clickHandler weather_unavailable
           @ clickHandler london @ clickHandler london) page_loaded)"
proof -
  let ?envs = "[london\<lparr>geolocation := None\<rparr>, weather_unavailable, london, london]"
  let ?calls = "clickHandler (london\<lparr>geolocation := None\<rparr>) @ clickHandler weather_unavailable
                  @ clickHandler london @ clickHandler london"
  have 1: "at_most_one_visible page_loaded"
    by (simp add: at_most_one_visible_def page_loaded_def visible_def)
  have 2: "\<not> visible (resultsDiv page_loaded)"
    by (simp add: page_loaded_def visible_def)
  then have 3: "visible (resultsDiv page_loaded) \<longrightarrow> False"
    by simp
  have 4: "capability_kept False ?envs"
    by (simp add: london_def weather_unavailable_def)
  from panels_exclusive_on_page [OF 1 3 4]
  have a: "\<forall>d' \<in> set (states ?calls page_loaded). at_most_one_visible d'"
    by simp
  have n: "clickHandler (london\<lparr>geolocation := None\<rparr>) \<noteq> []"
    by (simp add: clickHandler_unsupported)
  have "run (clickHandler (london\<lparr>geolocation := None\<rparr>)) page_loaded \<in> set (states ?calls page_loaded)"
    using run_in_states [OF n, of page_loaded] by (simp add: states_append)
  moreover have "run ?calls page_loaded \<in> set (states ?calls page_loaded)"
    by (rule run_in_states) (simp add: n)
  ultimately show ?thesis using a 1 2 4 by blast
qed

end
